theory Spec2Isabelle
  imports Complex_Main "HOL-Library.Word"
begin

section \<open>Python values, exceptions and containers\<close>

text \<open>
  The development embeds \<^verbatim>\<open>pretrain_t5.py\<close>. Every exception the Python can raise
  is a value of \<open>error\<close>; a function that can raise returns \<open>error + 'a\<close>, with
  \<open>Inl\<close> for the raised exception. \<open>ShapeError\<close> and \<open>DegenerateBatchError\<close> are the
  two failure names of the specification's error taxonomy; nothing in
  \<^verbatim>\<open>pretrain_t5.py\<close> raises them.
\<close>

datatype error =
    IndexError
  | KeyError string
  | StopIteration
  | ValueError string
  | UnboundLocalError string
  | ZeroDivisionError
  | ShapeError
  | DegenerateBatchError
  | CollaboratorError string

text \<open>Sequencing of fallible steps: the first exception ends the computation.\<close>

definition and_then :: "error + 'a \<Rightarrow> ('a \<Rightarrow> error + 'b) \<Rightarrow> error + 'b" where
  "and_then r f = (case r of Inl e \<Rightarrow> Inl e | Inr v \<Rightarrow> f v)"

text \<open>
  Python list subscription \<^verbatim>\<open>xs[i]\<close>: a negative index counts from the end, an index
  out of range raises \<^verbatim>\<open>IndexError\<close>.
\<close>

definition list_getitem :: "'a list \<Rightarrow> int \<Rightarrow> error + 'a" where
  "list_getitem xs i =
     (let n = int (length xs);
          k = (if i < 0 then i + n else i)
      in if k < 0 \<or> n \<le> k then Inl IndexError else Inr (xs ! nat k))"

text \<open>Python dict subscription \<^verbatim>\<open>d[k]\<close>: a missing key raises \<^verbatim>\<open>KeyError\<close>.\<close>

definition dict_getitem :: "(string \<rightharpoonup> 'v) \<Rightarrow> string \<Rightarrow> error + 'v" where
  "dict_getitem d k = (case d k of None \<Rightarrow> Inl (KeyError k) | Some v \<Rightarrow> Inr v)"

text \<open>Python floor division \<^verbatim>\<open>a // b\<close> on integers.\<close>

definition floordiv :: "int \<Rightarrow> int \<Rightarrow> error + int" where
  "floordiv a b = (if b = 0 then Inl ZeroDivisionError else Inr (a div b))"

section \<open>Rank topology\<close>

text \<open>
  \<^verbatim>\<open>t5_embedding_ranks(pp_ranks)\<close> and \<^verbatim>\<open>t5_position_embedding_ranks(pp_ranks)\<close>.
  A pipeline group is the Python list of its global ranks; both functions return a
  Python list.
\<close>

definition t5_embedding_ranks :: "int list \<Rightarrow> error + int list" where
  "t5_embedding_ranks pp_ranks =
     and_then (list_getitem pp_ranks 0) (\<lambda>first_rank.
     and_then (list_getitem pp_ranks (- 1)) (\<lambda>last_rank.
       if length pp_ranks = 1 then Inr [first_rank]
       else Inr [first_rank, last_rank]))"

definition t5_position_embedding_ranks :: "int list \<Rightarrow> error + int list" where
  "t5_position_embedding_ranks pp_ranks =
     and_then (list_getitem pp_ranks 0) (\<lambda>first_rank. Inr [first_rank])"

section \<open>Model assembly\<close>

text \<open>
  The fields of the global \<^verbatim>\<open>args\<close> namespace (\<^verbatim>\<open>get_args()\<close>) that
  \<^verbatim>\<open>pretrain_t5.py\<close> reads. \<^verbatim>\<open>rotary_percent\<close> is a Python float that is only passed
  on to the model constructor.
\<close>

record args =
  use_legacy_models :: bool
  encoder_num_layers :: int
  pipeline_model_parallel_size :: int
  transformer_impl :: string
  padded_vocab_size :: int
  max_position_embeddings :: int
  fp16_lm_cross_entropy :: bool
  untie_embeddings_and_output_weights :: bool
  position_embedding_type :: string
  rotary_percent :: real
  relative_attention_num_buckets :: int
  relative_attention_max_distance :: int

text \<open>
  The two fields of the transformer configuration that \<^verbatim>\<open>model_provider\<close> reads or
  writes: \<^verbatim>\<open>config.num_layers\<close> and \<^verbatim>\<open>config.pipeline_model_parallel_size\<close> (the
  latter renamed, since the \<^verbatim>\<open>args\<close> field has the same name).
\<close>

record config =
  num_layers :: int
  config_pipeline_model_parallel_size :: int

text \<open>
  The block specifications and the two model classes are built by collaborators
  outside \<^verbatim>\<open>pretrain_t5.py\<close>; each call is kept as a constructor applied to the
  arguments the source passes.
\<close>

datatype block_spec =
    T5EncoderWithLocalBlockSpec int
  | T5DecoderWithLocalBlockSpec int
  | T5EncoderWithTransformerEngineBlockSpec int
  | T5DecoderWithTransformerEngineBlockSpec int

text \<open>
  \<open>LegacyT5Model\<close>: config, num_tokentypes, parallel_output, pre_process, post_process,
  add_encoder, add_decoder.

  \<open>CoreT5Model\<close>: config, encoder_config, transformer_encoder_layer_spec,
  transformer_decoder_layer_spec, vocab_size, max_sequence_length, pre_process,
  post_process, fp16_lm_cross_entropy, parallel_output,
  share_embeddings_and_output_weights, position_embedding_type, rotary_percent,
  relative_attention_num_buckets, relative_attention_max_distance, add_encoder,
  add_decoder.
\<close>

datatype model_object =
    LegacyT5Model config int bool bool bool bool bool
  | CoreT5Model config config block_spec block_spec int int bool bool bool bool bool
      string real int int bool bool

text \<open>
  \<^verbatim>\<open>model_provider(pre_process, post_process, add_encoder, add_decoder)\<close>. The
  configuration builder \<^verbatim>\<open>core_transformer_config_from_args\<close> is a parameter. The
  result carries the lines printed by \<^verbatim>\<open>print_rank_0\<close>. When
  \<^verbatim>\<open>args.transformer_impl\<close> is neither \<^verbatim>\<open>"local"\<close> nor \<^verbatim>\<open>"transformer_engine"\<close> the
  two block specifications are never assigned and reading them raises
  \<^verbatim>\<open>UnboundLocalError\<close>.
\<close>

definition model_provider ::
  "(args \<Rightarrow> config) \<Rightarrow> args \<Rightarrow> bool \<Rightarrow> bool \<Rightarrow> bool \<Rightarrow> bool \<Rightarrow>
     error + (model_object \<times> string list)" where
  "model_provider core_transformer_config_from_args args pre_process post_process
       add_encoder add_decoder =
     (let config = core_transformer_config_from_args args in
      if use_legacy_models args then
        Inr (LegacyT5Model config 0 True pre_process post_process add_encoder add_decoder, [])
      else
        let encoder_config = config\<lparr>num_layers := encoder_num_layers args\<rparr> in
        if pipeline_model_parallel_size args > 1 then
          Inl (ValueError ''Pipeline parallelism is not supported for T5.'')
        else
          and_then (floordiv (num_layers encoder_config)
                      (config_pipeline_model_parallel_size encoder_config))
            (\<lambda>encoder_layers_per_pipeline.
          and_then (floordiv (num_layers config) (config_pipeline_model_parallel_size config))
            (\<lambda>decoder_layers_per_pipeline.
          and_then
            (if transformer_impl args = ''local'' then
               Inr (T5EncoderWithLocalBlockSpec encoder_layers_per_pipeline,
                    T5DecoderWithLocalBlockSpec decoder_layers_per_pipeline)
             else if transformer_impl args = ''transformer_engine'' then
               Inr (T5EncoderWithTransformerEngineBlockSpec encoder_layers_per_pipeline,
                    T5DecoderWithTransformerEngineBlockSpec decoder_layers_per_pipeline)
             else Inl (UnboundLocalError ''en_block_spec''))
            (\<lambda>(en_block_spec, de_block_spec).
          Inr (CoreT5Model config encoder_config en_block_spec de_block_spec
                 (padded_vocab_size args) (max_position_embeddings args)
                 pre_process post_process (fp16_lm_cross_entropy args) True
                 (\<not> untie_embeddings_and_output_weights args)
                 (position_embedding_type args) (rotary_percent args)
                 (relative_attention_num_buckets args)
                 (relative_attention_max_distance args)
                 add_encoder add_decoder,
               [''building T5 model ...''])))))"

section \<open>Batch decoding\<close>

text \<open>
  A broadcast tensor is a batch of rows; its entries are 64-bit integers, the
  \<^verbatim>\<open>torch.int64\<close> that \<^verbatim>\<open>get_batch\<close> asks the broadcast for.
\<close>

type_synonym int64 = "64 word"
type_synonym 'a tensor = "'a list list"

datatype dtype = TorchInt64

text \<open>
  \<^verbatim>\<open>.long()\<close> leaves an int64 tensor as it is; \<^verbatim>\<open>.float()\<close> converts every entry with
  the conversion \<open>to_float\<close>, a parameter; \<^verbatim>\<open>t < 0.5\<close> compares every entry, read as
  the signed integer it is, with one half.
\<close>

definition tensor_long :: "int64 tensor \<Rightarrow> int64 tensor" where
  "tensor_long t = t"

definition tensor_float :: "(int64 \<Rightarrow> 'f) \<Rightarrow> int64 tensor \<Rightarrow> 'f tensor" where
  "tensor_float to_float t = map (map to_float) t"

definition lt_half :: "int64 \<Rightarrow> bool" where
  "lt_half x \<longleftrightarrow> real_of_int (sint x) < 1 / 2"

definition tensor_lt_half :: "int64 tensor \<Rightarrow> bool tensor" where
  "tensor_lt_half t = map (map lt_half) t"

text \<open>
  The data iterator is the list of records it has yet to yield, or \<open>None\<close> on a rank
  that owns no data. \<^verbatim>\<open>next\<close> on an exhausted iterator raises \<^verbatim>\<open>StopIteration\<close>.
\<close>

definition next_data :: "'d list option \<Rightarrow> error + ('d option \<times> 'd list option)" where
  "next_data data_iterator =
     (case data_iterator of
        None \<Rightarrow> Inr (None, None)
      | Some [] \<Rightarrow> Inl StopIteration
      | Some (data # rest) \<Rightarrow> Inr (Some data, Some rest))"

definition batch_keys :: "string list" where
  "batch_keys = [''text_enc'', ''text_dec'', ''labels'', ''loss_mask'', ''enc_mask'', ''dec_mask'']"

text \<open>
  \<^verbatim>\<open>get_batch(data_iterator, use_local)\<close>. The collaborators
  \<^verbatim>\<open>tensor_parallel.broadcast_data\<close> and
  \<^verbatim>\<open>T5MaskedWordPieceDataset.config_attention_mask\<close> are parameters, and so is the
  float conversion. The result is the seven-tuple of the source together with the
  iterator as the call leaves it.
\<close>

definition get_batch ::
  "(string list \<Rightarrow> 'd option \<Rightarrow> dtype \<Rightarrow> error + (string \<rightharpoonup> int64 tensor)) \<Rightarrow>
   (int64 tensor \<Rightarrow> int64 tensor \<Rightarrow> bool tensor \<Rightarrow> bool tensor \<Rightarrow> bool \<Rightarrow>
      error + ('m \<times> 'm \<times> 'm)) \<Rightarrow>
   (int64 \<Rightarrow> 'f) \<Rightarrow> 'd list option \<Rightarrow> bool \<Rightarrow>
   error + ((int64 tensor \<times> int64 tensor \<times> 'f tensor \<times> int64 tensor \<times> 'm \<times> 'm \<times> 'm)
            \<times> 'd list option)" where
  "get_batch broadcast_data config_attention_mask to_float data_iterator use_local =
     (let keys = batch_keys;
          datatype_arg = TorchInt64
      in
      and_then (next_data data_iterator) (\<lambda>(data, data_iterator').
      and_then (broadcast_data keys data datatype_arg) (\<lambda>data_b.
      and_then (dict_getitem data_b ''text_enc'') (\<lambda>text_enc.
      and_then (dict_getitem data_b ''text_dec'') (\<lambda>text_dec.
      and_then (dict_getitem data_b ''labels'') (\<lambda>labels_raw.
      and_then (dict_getitem data_b ''loss_mask'') (\<lambda>loss_mask_raw.
      and_then (dict_getitem data_b ''enc_mask'') (\<lambda>enc_mask_raw.
      and_then (dict_getitem data_b ''dec_mask'') (\<lambda>dec_mask_raw.
        let tokens_enc = tensor_long text_enc;
            tokens_dec = tensor_long text_dec;
            labels = tensor_long labels_raw;
            loss_mask = tensor_float to_float loss_mask_raw;
            enc_mask = tensor_lt_half enc_mask_raw;
            dec_mask = tensor_lt_half dec_mask_raw
        in
        and_then (config_attention_mask tokens_enc tokens_dec enc_mask dec_mask use_local)
          (\<lambda>(enc_mask, dec_mask, enc_dec_mask).
        Inr ((tokens_enc, tokens_dec, loss_mask, labels, enc_mask, dec_mask, enc_dec_mask),
             data_iterator')))))))))))"

section \<open>Forward step\<close>

text \<open>
  The calls on the global timers are kept as a log of events:
  \<^verbatim>\<open>timers('batch generator', log_level=2).start()\<close> and
  \<^verbatim>\<open>timers('batch generator').stop()\<close>.
\<close>

datatype timer_event = TimerStart string nat | TimerStop string

text \<open>
  \<^verbatim>\<open>forward_step(data_iterator, model)\<close>. The model is the function that its call
  computes, taking the five positional arguments and \<^verbatim>\<open>lm_labels\<close>;
  \<^verbatim>\<open>loss_func\<close>, imported from \<^verbatim>\<open>pretrain_gpt\<close>, is a parameter, and
  \<^verbatim>\<open>partial(loss_func, loss_mask)\<close> is its application to the first argument. The
  result is the returned pair, the iterator as the call leaves it and the timer log.
\<close>

definition forward_step ::
  "args \<Rightarrow>
   (string list \<Rightarrow> 'd option \<Rightarrow> dtype \<Rightarrow> error + (string \<rightharpoonup> int64 tensor)) \<Rightarrow>
   (int64 tensor \<Rightarrow> int64 tensor \<Rightarrow> bool tensor \<Rightarrow> bool tensor \<Rightarrow> bool \<Rightarrow>
      error + ('m \<times> 'm \<times> 'm)) \<Rightarrow>
   (int64 \<Rightarrow> 'f) \<Rightarrow>
   ('f tensor \<Rightarrow> 'o \<Rightarrow> 'l) \<Rightarrow>
   'd list option \<Rightarrow>
   (int64 tensor \<Rightarrow> int64 tensor \<Rightarrow> 'm \<Rightarrow> 'm \<Rightarrow> 'm \<Rightarrow> int64 tensor \<Rightarrow> error + 'o) \<Rightarrow>
   error + (('o \<times> ('o \<Rightarrow> 'l)) \<times> 'd list option \<times> timer_event list)" where
  "forward_step args broadcast_data config_attention_mask to_float loss_func
       data_iterator model =
     (let timers = [TimerStart ''batch generator'' 2];
          use_local = (transformer_impl args = ''local'')
      in
      and_then (get_batch broadcast_data config_attention_mask to_float data_iterator use_local)
        (\<lambda>((tokens_enc, tokens_dec, loss_mask, lm_labels, enc_mask, dec_mask, enc_dec_mask),
           data_iterator').
      let timers = timers @ [TimerStop ''batch generator''] in
      and_then (model tokens_enc tokens_dec enc_mask dec_mask enc_dec_mask lm_labels)
        (\<lambda>output_tensor.
      Inr ((output_tensor, loss_func loss_mask), data_iterator', timers))))"

section \<open>Collaborators described by the specification only\<close>

text \<open>
  A mask as an attention block consumes it: one query-by-key matrix per batch entry
  for the local backend, and the same with a singleton head dimension inserted for the
  other backend.
\<close>

datatype attention_mask =
    LocalMask "bool list list list"
  | BackendMask "bool list list list list"

definition mask_at :: "attention_mask \<Rightarrow> nat \<Rightarrow> nat \<Rightarrow> nat \<Rightarrow> bool" where
  "mask_at m b i j =
     (case m of LocalMask t \<Rightarrow> t ! b ! i ! j | BackendMask t \<Rightarrow> t ! b ! 0 ! i ! j)"

definition for_backend :: "bool \<Rightarrow> bool list list list \<Rightarrow> attention_mask" where
  "for_backend use_local t =
     (if use_local then LocalMask t else BackendMask (map (\<lambda>m. [m]) t))"

definition validity_product :: "bool list \<Rightarrow> bool list \<Rightarrow> bool list list" where
  "validity_product query key = map (\<lambda>q. map (\<lambda>k. q \<and> k) key) query"

definition causal_validity_product :: "bool list \<Rightarrow> bool list list" where
  "causal_validity_product valid =
     map (\<lambda>i. map (\<lambda>j. valid ! i \<and> valid ! j \<and> j \<le> i) [0..<length valid])
       [0..<length valid]"

text \<open>
  Modelled from the spec: \<^verbatim>\<open>T5MaskedWordPieceDataset.config_attention_mask\<close>, defined in
  \<^verbatim>\<open>megatron/core/datasets/t5_dataset.py\<close>, which is not among the source files. The
  definition follows the AttentionMaskBuilder of the specification: the encoder
  self-mask allows \<open>(i, j)\<close> iff both positions are valid in the encoder padding, the
  decoder self-mask iff both are valid in the decoder padding and \<open>j \<le> i\<close>, the
  cross-mask iff decoder position \<open>i\<close> and encoder position \<open>j\<close> are valid; when the
  local backend is not used the masks get a singleton dimension; the builder fails only
  when the batch dimensions of the two paddings differ.
\<close>

definition config_attention_mask_spec ::
  "int64 tensor \<Rightarrow> int64 tensor \<Rightarrow> bool tensor \<Rightarrow> bool tensor \<Rightarrow> bool \<Rightarrow>
     error + (attention_mask \<times> attention_mask \<times> attention_mask)" where
  "config_attention_mask_spec tokens_enc tokens_dec encoder_padding decoder_padding use_local =
     (if length encoder_padding \<noteq> length decoder_padding then Inl ShapeError
      else Inr
        (for_backend use_local (map (\<lambda>e. validity_product e e) encoder_padding),
         for_backend use_local (map causal_validity_product decoder_padding),
         for_backend use_local
           (map (\<lambda>(d, e). validity_product d e) (zip decoder_padding encoder_padding))))"

text \<open>
  Modelled from the spec: \<^verbatim>\<open>loss_func\<close>, defined in \<^verbatim>\<open>pretrain_gpt.py\<close>, which is not
  among the source files. The definition follows the deferred loss of the
  specification's ForwardStepOrchestrator: the mean of the per-position losses weighted
  by the loss weights and normalised by the sum of the weights, failing with
  \<open>DegenerateBatchError\<close> when that sum, the divisor, is zero. Floating-point numbers
  are read as the reals they denote, and the data-parallel group is the one rank.
\<close>

definition loss_func_spec :: "real tensor \<Rightarrow> real tensor \<Rightarrow> error + real" where
  "loss_func_spec loss_mask output_tensor =
     (let weights = concat loss_mask;
          losses = concat output_tensor;
          total = sum_list weights
      in if total = 0 then Inl DegenerateBatchError
         else Inr (sum_list (map (\<lambda>(l, w). l * w) (zip losses weights)) / total))"

text \<open>
  The float conversion used with \<open>loss_func_spec\<close>: the real number an int64 entry
  denotes. Conversion to a 32-bit float rounds entries beyond \<open>2 ^ 24\<close> in magnitude,
  but never to or from zero.
\<close>

definition int64_to_real :: "int64 \<Rightarrow> real" where
  "int64_to_real x = real_of_int (sint x)"

section \<open>Example inputs\<close>

text \<open>
  Concrete collaborators and records on which the theorems below are evaluated: a
  configuration builder with twelve decoder layers, arguments that select the legacy
  model class on two pipeline stages with the local transformer implementation, a
  broadcast over a group of one rank, a mask builder and two models that return what
  they are given, and three batch records.
\<close>

definition example_config_from_args :: "args \<Rightarrow> config" where
  "example_config_from_args a =
     \<lparr>num_layers = 12, config_pipeline_model_parallel_size = pipeline_model_parallel_size a\<rparr>"

definition legacy_pipeline_args :: args where
  "legacy_pipeline_args =
     \<lparr>use_legacy_models = True, encoder_num_layers = 12, pipeline_model_parallel_size = 2,
      transformer_impl = ''local'', padded_vocab_size = 30592, max_position_embeddings = 512,
      fp16_lm_cross_entropy = False, untie_embeddings_and_output_weights = False,
      position_embedding_type = ''learned_absolute'', rotary_percent = 1,
      relative_attention_num_buckets = 32, relative_attention_max_distance = 128\<rparr>"

definition example_broadcast ::
  "string list \<Rightarrow> (string \<rightharpoonup> int64 tensor) option \<Rightarrow> dtype \<Rightarrow>
     error + (string \<rightharpoonup> int64 tensor)" where
  "example_broadcast keys data dt =
     (case data of None \<Rightarrow> Inl (CollaboratorError ''no data on the source rank'')
      | Some d \<Rightarrow> Inr d)"

definition example_mask_builder ::
  "int64 tensor \<Rightarrow> int64 tensor \<Rightarrow> bool tensor \<Rightarrow> bool tensor \<Rightarrow> bool \<Rightarrow>
     error + (string \<times> string \<times> string)" where
  "example_mask_builder tokens_enc tokens_dec enc_mask dec_mask use_local =
     (if use_local then Inr (''enc self-mask'', ''dec self-mask'', ''cross-mask'')
      else Inl (CollaboratorError ''backend not available''))"

definition echo_model ::
  "int64 tensor \<Rightarrow> int64 tensor \<Rightarrow> 'm \<Rightarrow> 'm \<Rightarrow> 'm \<Rightarrow> int64 tensor \<Rightarrow>
     error + (int64 tensor \<times> int64 tensor \<times> 'm \<times> 'm \<times> 'm \<times> int64 tensor)" where
  "echo_model a1 a2 a3 a4 a5 lm_labels = Inr (a1, a2, a3, a4, a5, lm_labels)"

definition constant_loss_model ::
  "int64 tensor \<Rightarrow> int64 tensor \<Rightarrow> 'm \<Rightarrow> 'm \<Rightarrow> 'm \<Rightarrow> int64 tensor \<Rightarrow> error + real tensor" where
  "constant_loss_model a1 a2 a3 a4 a5 lm_labels = Inr [[1 / 2, 1 / 4]]"

definition example_record :: "string \<rightharpoonup> int64 tensor" where
  "example_record = map_of
     [(''text_enc'', [[101, 7, 0]]), (''text_dec'', [[1, 5]]), (''labels'', [[5, 2]]),
      (''loss_mask'', [[1, 0]]), (''enc_mask'', [[0, 0, 1]]), (''dec_mask'', [[0, 1]])]"

definition mismatched_record :: "string \<rightharpoonup> int64 tensor" where
  "mismatched_record = map_of
     [(''text_enc'', [[101, 7, 0], [101, 9, 0]]), (''text_dec'', [[1, 5]]),
      (''labels'', [[5, 2]]), (''loss_mask'', [[1, 0]]), (''enc_mask'', [[0, 0, 1]]),
      (''dec_mask'', [[0, 1]])]"

definition zero_weight_record :: "string \<rightharpoonup> int64 tensor" where
  "zero_weight_record = map_of
     [(''text_enc'', [[101, 7, 0]]), (''text_dec'', [[1, 5]]), (''labels'', [[5, 2]]),
      (''loss_mask'', [[0, 0]]), (''enc_mask'', [[0, 0, 1]]), (''dec_mask'', [[0, 1]])]"

section \<open>Basic facts about the Python primitives\<close>

lemma and_then_Inl [simp]: "and_then (Inl e) f = Inl e"
  by (simp add: and_then_def)

lemma and_then_Inr [simp]: "and_then (Inr v) f = f v"
  by (simp add: and_then_def)

lemma list_getitem_first: "xs \<noteq> [] \<Longrightarrow> list_getitem xs 0 = Inr (hd xs)"
  by (cases xs) (simp_all add: list_getitem_def)

lemma list_getitem_last: "xs \<noteq> [] \<Longrightarrow> list_getitem xs (- 1) = Inr (last xs)"
proof -
  assume ne: "xs \<noteq> []"
  then have pos: "0 < length xs" by simp
  then have "nat (- 1 + int (length xs)) = length xs - 1" by linarith
  with ne pos show ?thesis
    by (simp add: list_getitem_def Let_def last_conv_nth)
qed

lemma list_getitem_empty: "list_getitem [] i = Inl IndexError"
  by (simp add: list_getitem_def Let_def)

section \<open>Facts about the example inputs\<close>

lemma example_next: "next_data (Some [r]) = Inr (Some r, Some [])"
  by (simp add: next_data_def)

lemma example_broadcast_Some: "example_broadcast keys (Some r) dt = Inr r"
  by (simp add: example_broadcast_def)

lemma example_record_fields:
  "example_record ''text_enc'' = Some [[101, 7, 0]]"
  "example_record ''text_dec'' = Some [[1, 5]]"
  "example_record ''labels'' = Some [[5, 2]]"
  "example_record ''loss_mask'' = Some [[1, 0]]"
  "example_record ''enc_mask'' = Some [[0, 0, 1]]"
  "example_record ''dec_mask'' = Some [[0, 1]]"
  by (simp_all add: example_record_def)

lemma mismatched_record_fields:
  "mismatched_record ''text_enc'' = Some [[101, 7, 0], [101, 9, 0]]"
  "mismatched_record ''text_dec'' = Some [[1, 5]]"
  "mismatched_record ''labels'' = Some [[5, 2]]"
  "mismatched_record ''loss_mask'' = Some [[1, 0]]"
  "mismatched_record ''enc_mask'' = Some [[0, 0, 1]]"
  "mismatched_record ''dec_mask'' = Some [[0, 1]]"
  by (simp_all add: mismatched_record_def)

lemma zero_weight_record_fields:
  "zero_weight_record ''text_enc'' = Some [[101, 7, 0]]"
  "zero_weight_record ''text_dec'' = Some [[1, 5]]"
  "zero_weight_record ''labels'' = Some [[5, 2]]"
  "zero_weight_record ''loss_mask'' = Some [[0, 0]]"
  "zero_weight_record ''enc_mask'' = Some [[0, 0, 1]]"
  "zero_weight_record ''dec_mask'' = Some [[0, 1]]"
  by (simp_all add: zero_weight_record_def)

lemma tensor_lt_half_examples:
  "tensor_lt_half [[0, 0, 1]] = [[True, True, False]]"
  "tensor_lt_half [[0, 1]] = [[True, False]]"
  by (simp_all add: tensor_lt_half_def lt_half_def)

lemma tensor_float_examples:
  "tensor_float int64_to_real [[1, 0]] = [[1, 0]]"
  "tensor_float int64_to_real [[0, 0]] = [[0, 0]]"
  by (simp_all add: tensor_float_def int64_to_real_def)

lemma causal_validity_product_example:
  "causal_validity_product [True, False] = [[True, False], [False, False]]"
proof -
  have "[0..<2] = [0, Suc 0]" by (simp add: upt_rec)
  then show ?thesis by (simp add: causal_validity_product_def)
qed

lemma spec_builder_example:
  "config_attention_mask_spec te td [[True, True, False]] [[True, False]] True =
     Inr (LocalMask [[[True, True, False], [True, True, False], [False, False, False]]],
          LocalMask [[[True, False], [False, False]]],
          LocalMask [[[True, True, False], [False, False, False]]])"
  by (simp add: config_attention_mask_spec_def for_backend_def validity_product_def
      causal_validity_product_example)

section \<open>Facts about batch decoding\<close>

text \<open>An int64 entry is below one half exactly when it is not positive.\<close>

lemma lt_half_iff_nonpositive: "lt_half x \<longleftrightarrow> sint x \<le> 0"
  unfolding lt_half_def by linarith

lemma tensor_lt_half_shape:
  "length (tensor_lt_half t) = length t"
  "b < length t \<Longrightarrow> length (tensor_lt_half t ! b) = length (t ! b)"
  by (simp_all add: tensor_lt_half_def)

text \<open>
  Once the iterator has yielded and the broadcast has returned the six fields, the
  rest of \<^verbatim>\<open>get_batch\<close> is the call of the mask builder.
\<close>

lemma get_batch_decoded:
  assumes "next_data data_iterator = Inr (data, data_iterator')"
    and "broadcast_data batch_keys data TorchInt64 = Inr data_b"
    and "data_b ''text_enc'' = Some text_enc"
    and "data_b ''text_dec'' = Some text_dec"
    and "data_b ''labels'' = Some labels"
    and "data_b ''loss_mask'' = Some loss_mask"
    and "data_b ''enc_mask'' = Some enc_raw"
    and "data_b ''dec_mask'' = Some dec_raw"
  shows "get_batch broadcast_data config_attention_mask to_float data_iterator use_local =
     and_then
       (config_attention_mask text_enc text_dec (tensor_lt_half enc_raw)
          (tensor_lt_half dec_raw) use_local)
       (\<lambda>(enc_self, dec_self, cross).
          Inr ((text_enc, text_dec, tensor_float to_float loss_mask, labels,
                enc_self, dec_self, cross), data_iterator'))"
  using assms by (simp add: get_batch_def dict_getitem_def tensor_long_def)

text \<open>Conversely, a call that returns has passed every one of these steps.\<close>

lemma get_batch_returnsD:
  assumes "get_batch broadcast_data config_attention_mask to_float data_iterator use_local =
             Inr result"
  shows "\<exists>data data_iterator' data_b text_enc text_dec labels loss_mask enc_raw dec_raw
            enc_self dec_self cross.
           next_data data_iterator = Inr (data, data_iterator') \<and>
           broadcast_data batch_keys data TorchInt64 = Inr data_b \<and>
           data_b ''text_enc'' = Some text_enc \<and>
           data_b ''text_dec'' = Some text_dec \<and>
           data_b ''labels'' = Some labels \<and>
           data_b ''loss_mask'' = Some loss_mask \<and>
           data_b ''enc_mask'' = Some enc_raw \<and>
           data_b ''dec_mask'' = Some dec_raw \<and>
           config_attention_mask text_enc text_dec (tensor_lt_half enc_raw)
               (tensor_lt_half dec_raw) use_local = Inr (enc_self, dec_self, cross) \<and>
           result = ((text_enc, text_dec, tensor_float to_float loss_mask, labels,
                      enc_self, dec_self, cross), data_iterator')"
proof -
  from assms obtain data data_iterator' where
    n: "next_data data_iterator = Inr (data, data_iterator')"
    by (cases "next_data data_iterator") (auto simp: get_batch_def)
  from assms n obtain data_b where
    b: "broadcast_data batch_keys data TorchInt64 = Inr data_b"
    by (cases "broadcast_data batch_keys data TorchInt64") (auto simp: get_batch_def)
  from assms n b obtain text_enc where f1: "data_b ''text_enc'' = Some text_enc"
    by (cases "data_b ''text_enc''") (auto simp: get_batch_def dict_getitem_def)
  from assms n b f1 obtain text_dec where f2: "data_b ''text_dec'' = Some text_dec"
    by (cases "data_b ''text_dec''") (auto simp: get_batch_def dict_getitem_def)
  from assms n b f1 f2 obtain labels where f3: "data_b ''labels'' = Some labels"
    by (cases "data_b ''labels''") (auto simp: get_batch_def dict_getitem_def)
  from assms n b f1 f2 f3 obtain loss_mask where f4: "data_b ''loss_mask'' = Some loss_mask"
    by (cases "data_b ''loss_mask''") (auto simp: get_batch_def dict_getitem_def)
  from assms n b f1 f2 f3 f4 obtain enc_raw where f5: "data_b ''enc_mask'' = Some enc_raw"
    by (cases "data_b ''enc_mask''") (auto simp: get_batch_def dict_getitem_def)
  from assms n b f1 f2 f3 f4 f5 obtain dec_raw where f6: "data_b ''dec_mask'' = Some dec_raw"
    by (cases "data_b ''dec_mask''") (auto simp: get_batch_def dict_getitem_def)
  have "get_batch broadcast_data config_attention_mask to_float data_iterator use_local =
     and_then
       (config_attention_mask text_enc text_dec (tensor_lt_half enc_raw)
          (tensor_lt_half dec_raw) use_local)
       (\<lambda>(enc_self, dec_self, cross).
          Inr ((text_enc, text_dec, tensor_float to_float loss_mask, labels,
                enc_self, dec_self, cross), data_iterator'))"
    using n b f1 f2 f3 f4 f5 f6 by (rule get_batch_decoded)
  with assms obtain enc_self dec_self cross where
    m: "config_attention_mask text_enc text_dec (tensor_lt_half enc_raw)
          (tensor_lt_half dec_raw) use_local = Inr (enc_self, dec_self, cross)"
    and r: "result = ((text_enc, text_dec, tensor_float to_float loss_mask, labels,
                      enc_self, dec_self, cross), data_iterator')"
    by (cases "config_attention_mask text_enc text_dec (tensor_lt_half enc_raw)
          (tensor_lt_half dec_raw) use_local") auto
  from n b f1 f2 f3 f4 f5 f6 m r show ?thesis by blast
qed

text \<open>
  The six subscriptions are made in the order of \<open>batch_keys\<close>, so the first key the
  broadcast record lacks is the one whose \<^verbatim>\<open>KeyError\<close> is raised.
\<close>

lemma first_missing_key:
  "find (\<lambda>k. data_b k = None) batch_keys =
     (if data_b ''text_enc'' = None then Some ''text_enc''
      else if data_b ''text_dec'' = None then Some ''text_dec''
      else if data_b ''labels'' = None then Some ''labels''
      else if data_b ''loss_mask'' = None then Some ''loss_mask''
      else if data_b ''enc_mask'' = None then Some ''enc_mask''
      else if data_b ''dec_mask'' = None then Some ''dec_mask''
      else None)"
  by (simp add: batch_keys_def)

lemma get_batch_after_broadcast:
  assumes "next_data data_iterator = Inr (data, data_iterator')"
    and "broadcast_data batch_keys data TorchInt64 = Inr data_b"
  shows "get_batch broadcast_data config_attention_mask to_float data_iterator use_local =
     (case find (\<lambda>k. data_b k = None) batch_keys of
        Some k \<Rightarrow> Inl (KeyError k)
      | None \<Rightarrow>
          and_then
            (config_attention_mask (the (data_b ''text_enc'')) (the (data_b ''text_dec''))
               (tensor_lt_half (the (data_b ''enc_mask'')))
               (tensor_lt_half (the (data_b ''dec_mask''))) use_local)
            (\<lambda>(enc_self, dec_self, cross).
               Inr ((the (data_b ''text_enc''), the (data_b ''text_dec''),
                     tensor_float to_float (the (data_b ''loss_mask'')),
                     the (data_b ''labels''), enc_self, dec_self, cross), data_iterator')))"
  using assms
  by (auto simp: get_batch_def first_missing_key dict_getitem_def tensor_long_def)

text \<open>A call that raises has failed in exactly one of its steps, with that step's exception.\<close>

lemma get_batch_fails_iff:
  "get_batch broadcast_data config_attention_mask to_float data_iterator use_local = Inl err
   \<longleftrightarrow>
   next_data data_iterator = Inl err \<or>
   (\<exists>data data_iterator'.
      next_data data_iterator = Inr (data, data_iterator') \<and>
      (broadcast_data batch_keys data TorchInt64 = Inl err \<or>
       (\<exists>data_b.
          broadcast_data batch_keys data TorchInt64 = Inr data_b \<and>
          ((\<exists>k. find (\<lambda>k. data_b k = None) batch_keys = Some k \<and> err = KeyError k) \<or>
           (\<exists>text_enc text_dec labels loss_mask enc_raw dec_raw.
              data_b ''text_enc'' = Some text_enc \<and>
              data_b ''text_dec'' = Some text_dec \<and>
              data_b ''labels'' = Some labels \<and>
              data_b ''loss_mask'' = Some loss_mask \<and>
              data_b ''enc_mask'' = Some enc_raw \<and>
              data_b ''dec_mask'' = Some dec_raw \<and>
              config_attention_mask text_enc text_dec (tensor_lt_half enc_raw)
                  (tensor_lt_half dec_raw) use_local = Inl err)))))"
proof (cases "next_data data_iterator")
  case (Inl e)
  then show ?thesis by (auto simp: get_batch_def)
next
  case (Inr p)
  obtain data data_iterator' where p: "p = (data, data_iterator')" by (cases p)
  note n = Inr [unfolded p]
  show ?thesis
  proof (cases "broadcast_data batch_keys data TorchInt64")
    case (Inl e)
    with n show ?thesis by (auto simp: get_batch_def)
  next
    case b: (Inr data_b)
    note after = get_batch_after_broadcast [where broadcast_data = broadcast_data
        and data_b = data_b, OF n b]
    show ?thesis
    proof (cases "find (\<lambda>k. data_b k = None) batch_keys")
      case (Some k)
      then have "\<not> (\<exists>text_enc text_dec labels loss_mask enc_raw dec_raw.
              data_b ''text_enc'' = Some text_enc \<and>
              data_b ''text_dec'' = Some text_dec \<and>
              data_b ''labels'' = Some labels \<and>
              data_b ''loss_mask'' = Some loss_mask \<and>
              data_b ''enc_mask'' = Some enc_raw \<and>
              data_b ''dec_mask'' = Some dec_raw)"
        by (auto simp: first_missing_key split: if_splits)
      with n b Some show ?thesis
        by (auto simp: after)
    next
      case None
      then obtain text_enc text_dec labels loss_mask enc_raw dec_raw where
        f: "data_b ''text_enc'' = Some text_enc"
          "data_b ''text_dec'' = Some text_dec"
          "data_b ''labels'' = Some labels"
          "data_b ''loss_mask'' = Some loss_mask"
          "data_b ''enc_mask'' = Some enc_raw"
          "data_b ''dec_mask'' = Some dec_raw"
        by (auto simp: first_missing_key split: if_splits)
      show ?thesis
      proof (cases "config_attention_mask text_enc text_dec (tensor_lt_half enc_raw)
                  (tensor_lt_half dec_raw) use_local")
        case (Inl e)
        with n b None f show ?thesis
          by (auto simp: after)
      next
        case (Inr m)
        with n b None f show ?thesis
          by (auto simp: after)
      qed
    qed
  qed
qed

text \<open>The iterator itself raises nothing but \<^verbatim>\<open>StopIteration\<close>.\<close>

lemma next_data_fails_iff:
  "next_data data_iterator = Inl err \<longleftrightarrow> data_iterator = Some [] \<and> err = StopIteration"
  by (auto simp: next_data_def split: option.splits list.splits)

text \<open>A call returns exactly when every step returns.\<close>

lemma get_batch_returns_iff:
  "get_batch broadcast_data config_attention_mask to_float data_iterator use_local = Inr result
   \<longleftrightarrow>
   (\<exists>data data_iterator' data_b text_enc text_dec labels loss_mask enc_raw dec_raw
       enc_self dec_self cross.
      next_data data_iterator = Inr (data, data_iterator') \<and>
      broadcast_data batch_keys data TorchInt64 = Inr data_b \<and>
      data_b ''text_enc'' = Some text_enc \<and>
      data_b ''text_dec'' = Some text_dec \<and>
      data_b ''labels'' = Some labels \<and>
      data_b ''loss_mask'' = Some loss_mask \<and>
      data_b ''enc_mask'' = Some enc_raw \<and>
      data_b ''dec_mask'' = Some dec_raw \<and>
      config_attention_mask text_enc text_dec (tensor_lt_half enc_raw)
          (tensor_lt_half dec_raw) use_local = Inr (enc_self, dec_self, cross) \<and>
      result = ((text_enc, text_dec, tensor_float to_float loss_mask, labels,
                 enc_self, dec_self, cross), data_iterator'))"
proof
  assume "get_batch broadcast_data config_attention_mask to_float data_iterator use_local =
            Inr result"
  then show "\<exists>data data_iterator' data_b text_enc text_dec labels loss_mask enc_raw dec_raw
       enc_self dec_self cross.
      next_data data_iterator = Inr (data, data_iterator') \<and>
      broadcast_data batch_keys data TorchInt64 = Inr data_b \<and>
      data_b ''text_enc'' = Some text_enc \<and>
      data_b ''text_dec'' = Some text_dec \<and>
      data_b ''labels'' = Some labels \<and>
      data_b ''loss_mask'' = Some loss_mask \<and>
      data_b ''enc_mask'' = Some enc_raw \<and>
      data_b ''dec_mask'' = Some dec_raw \<and>
      config_attention_mask text_enc text_dec (tensor_lt_half enc_raw)
          (tensor_lt_half dec_raw) use_local = Inr (enc_self, dec_self, cross) \<and>
      result = ((text_enc, text_dec, tensor_float to_float loss_mask, labels,
                 enc_self, dec_self, cross), data_iterator')"
    by (rule get_batch_returnsD)
next
  assume "\<exists>data data_iterator' data_b text_enc text_dec labels loss_mask enc_raw dec_raw
       enc_self dec_self cross.
      next_data data_iterator = Inr (data, data_iterator') \<and>
      broadcast_data batch_keys data TorchInt64 = Inr data_b \<and>
      data_b ''text_enc'' = Some text_enc \<and>
      data_b ''text_dec'' = Some text_dec \<and>
      data_b ''labels'' = Some labels \<and>
      data_b ''loss_mask'' = Some loss_mask \<and>
      data_b ''enc_mask'' = Some enc_raw \<and>
      data_b ''dec_mask'' = Some dec_raw \<and>
      config_attention_mask text_enc text_dec (tensor_lt_half enc_raw)
          (tensor_lt_half dec_raw) use_local = Inr (enc_self, dec_self, cross) \<and>
      result = ((text_enc, text_dec, tensor_float to_float loss_mask, labels,
                 enc_self, dec_self, cross), data_iterator')"
  then obtain data data_iterator' data_b text_enc text_dec labels loss_mask enc_raw dec_raw
       enc_self dec_self cross where
      h: "next_data data_iterator = Inr (data, data_iterator')"
      "broadcast_data batch_keys data TorchInt64 = Inr data_b"
      "data_b ''text_enc'' = Some text_enc"
      "data_b ''text_dec'' = Some text_dec"
      "data_b ''labels'' = Some labels"
      "data_b ''loss_mask'' = Some loss_mask"
      "data_b ''enc_mask'' = Some enc_raw"
      "data_b ''dec_mask'' = Some dec_raw"
     and m: "config_attention_mask text_enc text_dec (tensor_lt_half enc_raw)
          (tensor_lt_half dec_raw) use_local = Inr (enc_self, dec_self, cross)"
     and r: "result = ((text_enc, text_dec, tensor_float to_float loss_mask, labels,
                 enc_self, dec_self, cross), data_iterator')"
    by blast
  have "get_batch broadcast_data config_attention_mask to_float data_iterator use_local =
     and_then
       (config_attention_mask text_enc text_dec (tensor_lt_half enc_raw)
          (tensor_lt_half dec_raw) use_local)
       (\<lambda>(enc_self, dec_self, cross).
          Inr ((text_enc, text_dec, tensor_float to_float loss_mask, labels,
                enc_self, dec_self, cross), data_iterator'))"
    using h by (rule get_batch_decoded)
  with m r show "get_batch broadcast_data config_attention_mask to_float data_iterator use_local =
            Inr result"
    by simp
qed

lemma example_get_batch_local:
  "get_batch example_broadcast example_mask_builder int64_to_real (Some [example_record])
       (transformer_impl legacy_pipeline_args = ''local'') =
     Inr (([[101, 7, 0]], [[1, 5]], [[1, 0]], [[5, 2]],
           ''enc self-mask'', ''dec self-mask'', ''cross-mask''), Some [])"
  by (simp add: get_batch_decoded [where broadcast_data = example_broadcast
        and data_b = example_record, OF example_next example_broadcast_Some example_record_fields]
      legacy_pipeline_args_def example_mask_builder_def tensor_float_examples)

section \<open>Facts about the forward step\<close>

lemma forward_step_returnsD:
  assumes "forward_step args broadcast_data config_attention_mask to_float loss_func
             data_iterator model =
           Inr ((output_tensor, loss_closure), data_iterator', timer_log)"
  shows "\<exists>tokens_enc tokens_dec loss_mask lm_labels enc_mask dec_mask enc_dec_mask.
           get_batch broadcast_data config_attention_mask to_float data_iterator
               (transformer_impl args = ''local'') =
             Inr ((tokens_enc, tokens_dec, loss_mask, lm_labels, enc_mask, dec_mask, enc_dec_mask),
                  data_iterator') \<and>
           model tokens_enc tokens_dec enc_mask dec_mask enc_dec_mask lm_labels =
             Inr output_tensor \<and>
           loss_closure = loss_func loss_mask"
proof (cases "get_batch broadcast_data config_attention_mask to_float data_iterator
               (transformer_impl args = ''local'')")
  case (Inl e)
  with assms show ?thesis by (simp add: forward_step_def)
next
  case (Inr r)
  obtain tokens_enc tokens_dec loss_mask lm_labels enc_mask dec_mask enc_dec_mask it where
    r: "r = ((tokens_enc, tokens_dec, loss_mask, lm_labels, enc_mask, dec_mask, enc_dec_mask), it)"
    by (cases r) auto
  show ?thesis
  proof (cases "model tokens_enc tokens_dec enc_mask dec_mask enc_dec_mask lm_labels")
    case (Inl e)
    with assms Inr r show ?thesis by (simp add: forward_step_def)
  next
    case m: (Inr out)
    with assms Inr r show ?thesis by (simp add: forward_step_def)
  qed
qed

section \<open>Facts about the collaborators described by the specification\<close>

lemma validity_product_entry:
  "i < length q \<Longrightarrow> j < length k \<Longrightarrow> validity_product q k ! i ! j \<longleftrightarrow> q ! i \<and> k ! j"
  by (simp add: validity_product_def)

lemma config_attention_mask_spec_returns:
  "length enc_valid = length dec_valid \<Longrightarrow>
     \<exists>enc_self dec_self cross.
       config_attention_mask_spec tokens_enc tokens_dec enc_valid dec_valid use_local =
         Inr (enc_self, dec_self, cross)"
  by (simp add: config_attention_mask_spec_def)

lemma config_attention_mask_spec_cross:
  assumes "config_attention_mask_spec tokens_enc tokens_dec enc_valid dec_valid use_local =
             Inr (enc_self, dec_self, cross)"
    and "b < length dec_valid" and "i < length (dec_valid ! b)" and "j < length (enc_valid ! b)"
  shows "mask_at cross b i j \<longleftrightarrow> dec_valid ! b ! i \<and> enc_valid ! b ! j"
proof -
  from assms(1) have len: "length enc_valid = length dec_valid"
    and cross: "cross = for_backend use_local
           (map (\<lambda>(d, e). validity_product d e) (zip dec_valid enc_valid))"
    by (auto simp: config_attention_mask_spec_def split: if_splits)
  from len assms(2) have
    "map (\<lambda>(d, e). validity_product d e) (zip dec_valid enc_valid) ! b =
       validity_product (dec_valid ! b) (enc_valid ! b)"
    by simp
  with len assms(2) have "mask_at cross b i j =
      validity_product (dec_valid ! b) (enc_valid ! b) ! i ! j"
    by (simp add: cross mask_at_def for_backend_def)
  with assms(3,4) show ?thesis by (simp add: validity_product_entry)
qed

lemma sum_list_all_zero: "\<forall>x \<in> set xs. x = 0 \<Longrightarrow> sum_list xs = (0 :: real)"
  by (induction xs) simp_all

lemma loss_func_spec_zero_weights:
  assumes "\<forall>row \<in> set w. \<forall>x \<in> set row. x = 0"
  shows "loss_func_spec (tensor_float int64_to_real w) output_tensor = Inl DegenerateBatchError"
proof -
  have zero: "int64_to_real 0 = 0" by (simp add: int64_to_real_def)
  have "\<forall>x \<in> set (concat (tensor_float int64_to_real w)). x = 0"
  proof
    fix x assume "x \<in> set (concat (tensor_float int64_to_real w))"
    then obtain row y where "row \<in> set w" "y \<in> set row" "x = int64_to_real y"
      by (auto simp: tensor_float_def)
    with assms zero show "x = 0" by auto
  qed
  then have "sum_list (concat (tensor_float int64_to_real w)) = 0"
    by (rule sum_list_all_zero)
  then show ?thesis by (simp add: loss_func_spec_def)
qed

section \<open>Rank topology: the claims\<close>

text \<open>
  C1. For every non-empty pipeline group, \<^verbatim>\<open>t5_embedding_ranks\<close> returns the first
  rank alone when the group has exactly one element, and the first and the last rank
  otherwise. The Python returns a list; its elements are the set the claim names. In
  particular the group \<open>[5]\<close> gives \<open>{5}\<close> and the group \<open>[5, 6, 7, 8]\<close> gives \<open>{5, 8}\<close>.
\<close>

theorem t5_embedding_ranks_first_and_last:
  "(pp_ranks \<noteq> [] \<longrightarrow>
      (\<exists>ranks. t5_embedding_ranks pp_ranks = Inr ranks \<and>
         ranks = (if length pp_ranks = 1 then [hd pp_ranks] else [hd pp_ranks, last pp_ranks]) \<and>
         set ranks = (if length pp_ranks = 1 then {hd pp_ranks} else {hd pp_ranks, last pp_ranks})))
   \<and> t5_embedding_ranks [5] = Inr [5]
   \<and> t5_embedding_ranks [5, 6, 7, 8] = Inr [5, 8]"
proof (intro conjI impI)
  assume ne: "pp_ranks \<noteq> []"
  show "\<exists>ranks. t5_embedding_ranks pp_ranks = Inr ranks \<and>
         ranks = (if length pp_ranks = 1 then [hd pp_ranks] else [hd pp_ranks, last pp_ranks]) \<and>
         set ranks = (if length pp_ranks = 1 then {hd pp_ranks} else {hd pp_ranks, last pp_ranks})"
    by (simp add: t5_embedding_ranks_def list_getitem_first [OF ne] list_getitem_last [OF ne])
next
  show "t5_embedding_ranks [5] = Inr [5]"
    by (simp add: t5_embedding_ranks_def list_getitem_def)
next
  show "t5_embedding_ranks [5, 6, 7, 8] = Inr [5, 8]"
    by (simp add: t5_embedding_ranks_def list_getitem_def)
qed

theorem t5_embedding_ranks_first_and_last_witness:
  "[5, 6, 7, 8] \<noteq> ([] :: int list) \<and>
   t5_embedding_ranks [5, 6, 7, 8] = Inr [5, 8] \<and>
   set [5, 8 :: int] = {5, 8}"
  using t5_embedding_ranks_first_and_last [of "[5, 6, 7, 8]"] by simp

text \<open>
  C2. For every non-empty pipeline group, \<^verbatim>\<open>t5_position_embedding_ranks\<close> returns
  exactly the first rank, whatever the length of the group.
\<close>

theorem t5_position_embedding_ranks_first:
  "pp_ranks \<noteq> [] \<Longrightarrow>
     t5_position_embedding_ranks pp_ranks = Inr [hd pp_ranks] \<and>
     (\<exists>ranks. t5_position_embedding_ranks pp_ranks = Inr ranks \<and> set ranks = {pp_ranks ! 0})"
  by (simp add: t5_position_embedding_ranks_def list_getitem_first hd_conv_nth)

theorem t5_position_embedding_ranks_first_witness:
  "[5, 6, 7, 8] \<noteq> ([] :: int list) \<and>
   t5_position_embedding_ranks [5, 6, 7, 8] = Inr [5] \<and>
   t5_position_embedding_ranks [5] = Inr [5]"
  using t5_position_embedding_ranks_first [of "[5, 6, 7, 8]"]
    t5_position_embedding_ranks_first [of "[5]"]
  by simp

text \<open>
  C10. For every non-empty pipeline group, every rank returned by
  \<^verbatim>\<open>t5_position_embedding_ranks\<close> is also returned by \<^verbatim>\<open>t5_embedding_ranks\<close>: the first
  rank of the group hosts both the token embedding and the positional embedding.
\<close>

theorem position_embedding_ranks_subset_embedding_ranks:
  "pp_ranks \<noteq> [] \<Longrightarrow>
     \<exists>pos emb. t5_position_embedding_ranks pp_ranks = Inr pos \<and>
                t5_embedding_ranks pp_ranks = Inr emb \<and>
                set pos \<subseteq> set emb \<and> hd pp_ranks \<in> set pos"
  by (simp add: t5_position_embedding_ranks_def t5_embedding_ranks_def
      list_getitem_first list_getitem_last)

theorem position_embedding_ranks_subset_embedding_ranks_witness:
  "[5, 6, 7, 8] \<noteq> ([] :: int list) \<and>
   t5_position_embedding_ranks [5, 6, 7, 8] = Inr [5] \<and>
   t5_embedding_ranks [5, 6, 7, 8] = Inr [5, 8] \<and>
   set [5 :: int] \<subseteq> set [5, 8]"
proof -
  have ne: "[5, 6, 7, 8] \<noteq> ([] :: int list)" by simp
  from position_embedding_ranks_subset_embedding_ranks [OF ne]
  obtain pos emb where
    "t5_position_embedding_ranks [5, 6, 7, 8] = Inr pos"
    "t5_embedding_ranks [5, 6, 7, 8] = Inr emb" "set pos \<subseteq> set emb"
    by blast
  moreover have "t5_position_embedding_ranks [5, 6, 7, 8] = Inr [5]"
    by (simp add: t5_position_embedding_ranks_def list_getitem_def)
  moreover have "t5_embedding_ranks [5, 6, 7, 8] = Inr [5, 8]"
    by (simp add: t5_embedding_ranks_def list_getitem_def)
  ultimately show ?thesis by simp
qed

section \<open>Model assembly: the claim\<close>

text \<open>
  C3, as amended. For every configuration with more than one pipeline stage that does
  not select the legacy model class, \<^verbatim>\<open>model_provider\<close> raises
  \<^verbatim>\<open>ValueError("Pipeline parallelism is not supported for T5.")\<close> before any block
  specification or model is built, whatever the configuration builder returns; when
  the legacy model class is selected, the legacy T5 model is built from the
  configuration with no check of the number of pipeline stages.
\<close>

theorem model_provider_pipeline_guard:
  "(\<not> use_legacy_models args \<and> 1 < pipeline_model_parallel_size args \<longrightarrow>
      model_provider core_transformer_config_from_args args pre_process post_process
          add_encoder add_decoder =
        Inl (ValueError ''Pipeline parallelism is not supported for T5.''))
   \<and> (use_legacy_models args \<longrightarrow>
      model_provider core_transformer_config_from_args args pre_process post_process
          add_encoder add_decoder =
        Inr (LegacyT5Model (core_transformer_config_from_args args) 0 True pre_process
               post_process add_encoder add_decoder, []))"
  by (simp add: model_provider_def Let_def)

theorem model_provider_pipeline_guard_witness:
  "\<not> use_legacy_models (legacy_pipeline_args\<lparr>use_legacy_models := False\<rparr>) \<and>
   1 < pipeline_model_parallel_size (legacy_pipeline_args\<lparr>use_legacy_models := False\<rparr>) \<and>
   model_provider example_config_from_args (legacy_pipeline_args\<lparr>use_legacy_models := False\<rparr>)
       True True True True =
     Inl (ValueError ''Pipeline parallelism is not supported for T5.'') \<and>
   use_legacy_models legacy_pipeline_args \<and>
   model_provider example_config_from_args legacy_pipeline_args True True True True =
     Inr (LegacyT5Model (example_config_from_args legacy_pipeline_args) 0 True True True True True,
          [])"
  using model_provider_pipeline_guard [of "legacy_pipeline_args\<lparr>use_legacy_models := False\<rparr>"
      example_config_from_args True True True True]
    model_provider_pipeline_guard [of legacy_pipeline_args example_config_from_args
      True True True True]
  by (simp add: legacy_pipeline_args_def)

text \<open>
  The claim without the amendment fails: with the legacy model class selected and two
  pipeline stages, \<^verbatim>\<open>model_provider\<close> returns a model.
\<close>

theorem model_provider_legacy_pipeline_counterexample:
  "1 < pipeline_model_parallel_size legacy_pipeline_args \<and>
   model_provider example_config_from_args legacy_pipeline_args True True True True =
     Inr (LegacyT5Model \<lparr>num_layers = 12, config_pipeline_model_parallel_size = 2\<rparr>
            0 True True True True True, [])"
  by (simp add: model_provider_def legacy_pipeline_args_def example_config_from_args_def)

section \<open>Batch decoding: the claims\<close>

text \<open>
  C4. For every broadcast batch record and every position of the two padding-indicator
  fields \<^verbatim>\<open>enc_mask\<close> and \<^verbatim>\<open>dec_mask\<close>, the boolean mask that \<^verbatim>\<open>get_batch\<close> hands
  to the mask builder is true at that position exactly when the raw indicator is
  strictly below one half; the masks have the shape of the raw fields. The masks are
  the same for every mask builder, float conversion and backend flag.
\<close>

theorem get_batch_padding_validity:
  assumes "next_data data_iterator = Inr (data, data_iterator')"
    and "broadcast_data batch_keys data TorchInt64 = Inr data_b"
    and "data_b ''text_enc'' = Some text_enc"
    and "data_b ''text_dec'' = Some text_dec"
    and "data_b ''labels'' = Some labels"
    and "data_b ''loss_mask'' = Some loss_mask"
    and "data_b ''enc_mask'' = Some enc_raw"
    and "data_b ''dec_mask'' = Some dec_raw"
  shows "\<exists>enc_valid dec_valid.
     (\<forall>config_attention_mask to_float use_local.
        get_batch broadcast_data config_attention_mask to_float data_iterator use_local =
          and_then (config_attention_mask text_enc text_dec enc_valid dec_valid use_local)
            (\<lambda>(enc_self, dec_self, cross).
               Inr ((text_enc, text_dec, tensor_float to_float loss_mask, labels,
                     enc_self, dec_self, cross), data_iterator')))
     \<and> length enc_valid = length enc_raw
     \<and> (\<forall>b < length enc_raw. length (enc_valid ! b) = length (enc_raw ! b) \<and>
          (\<forall>j < length (enc_raw ! b).
             enc_valid ! b ! j \<longleftrightarrow> real_of_int (sint (enc_raw ! b ! j)) < 1 / 2))
     \<and> length dec_valid = length dec_raw
     \<and> (\<forall>b < length dec_raw. length (dec_valid ! b) = length (dec_raw ! b) \<and>
          (\<forall>j < length (dec_raw ! b).
             dec_valid ! b ! j \<longleftrightarrow> real_of_int (sint (dec_raw ! b ! j)) < 1 / 2))"
proof (intro exI conjI allI)
  fix config_attention_mask :: "int64 tensor \<Rightarrow> int64 tensor \<Rightarrow> bool tensor \<Rightarrow> bool tensor \<Rightarrow>
      bool \<Rightarrow> error + ('m \<times> 'm \<times> 'm)"
    and to_float :: "int64 \<Rightarrow> 'f" and use_local
  show "get_batch broadcast_data config_attention_mask to_float data_iterator use_local =
          and_then (config_attention_mask text_enc text_dec (tensor_lt_half enc_raw)
               (tensor_lt_half dec_raw) use_local)
            (\<lambda>(enc_self, dec_self, cross).
               Inr ((text_enc, text_dec, tensor_float to_float loss_mask, labels,
                     enc_self, dec_self, cross), data_iterator'))"
    using assms by (rule get_batch_decoded)
qed (simp_all add: tensor_lt_half_def lt_half_def)

theorem get_batch_padding_validity_witness:
  "next_data (Some [example_record]) = Inr (Some example_record, Some []) \<and>
   example_broadcast batch_keys (Some example_record) TorchInt64 = Inr example_record \<and>
   example_record ''enc_mask'' = Some [[0, 0, 1]] \<and>
   example_record ''dec_mask'' = Some [[0, 1]] \<and>
   (\<exists>enc_valid dec_valid.
      get_batch example_broadcast config_attention_mask_spec int64_to_real
          (Some [example_record]) True =
        and_then (config_attention_mask_spec [[101, 7, 0]] [[1, 5]] enc_valid dec_valid True)
          (\<lambda>(enc_self, dec_self, cross).
             Inr (([[101, 7, 0]], [[1, 5]], tensor_float int64_to_real [[1, 0]], [[5, 2]],
                   enc_self, dec_self, cross), Some [])) \<and>
      enc_valid ! 0 ! 0 \<and> enc_valid ! 0 ! 1 \<and> \<not> enc_valid ! 0 ! 2 \<and>
      dec_valid ! 0 ! 0 \<and> \<not> dec_valid ! 0 ! 1)"
proof -
  from get_batch_padding_validity [where broadcast_data = example_broadcast
      and data_b = example_record, OF example_next example_broadcast_Some example_record_fields]
  obtain enc_valid dec_valid where
    call: "\<And>(cam :: int64 tensor \<Rightarrow> int64 tensor \<Rightarrow> bool tensor \<Rightarrow> bool tensor \<Rightarrow> bool \<Rightarrow>
               error + (attention_mask \<times> attention_mask \<times> attention_mask))
             (to_float :: int64 \<Rightarrow> real) use_local.
        get_batch example_broadcast cam to_float (Some [example_record]) use_local =
          and_then (cam [[101, 7, 0]] [[1, 5]] enc_valid dec_valid use_local)
            (\<lambda>(enc_self, dec_self, cross).
               Inr (([[101, 7, 0]], [[1, 5]], tensor_float to_float [[1, 0]], [[5, 2]],
                     enc_self, dec_self, cross), Some []))"
    and enc: "\<forall>b < length [[0, 0, 1 :: int64]].
          length (enc_valid ! b) = length ([[0, 0, 1 :: int64]] ! b) \<and>
          (\<forall>j < length ([[0, 0, 1 :: int64]] ! b).
             enc_valid ! b ! j \<longleftrightarrow> real_of_int (sint ([[0, 0, 1 :: int64]] ! b ! j)) < 1 / 2)"
    and dec: "\<forall>b < length [[0, 1 :: int64]].
          length (dec_valid ! b) = length ([[0, 1 :: int64]] ! b) \<and>
          (\<forall>j < length ([[0, 1 :: int64]] ! b).
             dec_valid ! b ! j \<longleftrightarrow> real_of_int (sint ([[0, 1 :: int64]] ! b ! j)) < 1 / 2)"
    by blast
  from enc have e0: "enc_valid ! 0 ! 0" and e1: "enc_valid ! 0 ! 1" and e2: "\<not> enc_valid ! 0 ! 2"
    by simp_all
  from dec have d0: "dec_valid ! 0 ! 0" and d1: "\<not> dec_valid ! 0 ! 1"
    by simp_all
  show ?thesis
    using call [of config_attention_mask_spec int64_to_real True] e0 e1 e2 d0 d1
    by (auto simp: example_next example_broadcast_Some example_record_fields)
qed

text \<open>
  C5. For every input record, \<^verbatim>\<open>get_batch\<close> calls the mask builder with the backend
  flag \<^verbatim>\<open>use_local\<close> it was given and, when the builder returns the three masks,
  returns the seven-tuple in the order encoder tokens, decoder tokens, loss weights,
  labels, encoder self-mask, decoder self-mask, cross-mask; when the builder raises,
  so does \<^verbatim>\<open>get_batch\<close>.
\<close>

theorem get_batch_seven_tuple:
  assumes "next_data data_iterator = Inr (data, data_iterator')"
    and "broadcast_data batch_keys data TorchInt64 = Inr data_b"
    and "data_b ''text_enc'' = Some text_enc"
    and "data_b ''text_dec'' = Some text_dec"
    and "data_b ''labels'' = Some labels"
    and "data_b ''loss_mask'' = Some loss_mask"
    and "data_b ''enc_mask'' = Some enc_raw"
    and "data_b ''dec_mask'' = Some dec_raw"
  shows "(\<forall>enc_self dec_self cross.
            config_attention_mask text_enc text_dec (tensor_lt_half enc_raw)
                (tensor_lt_half dec_raw) use_local = Inr (enc_self, dec_self, cross) \<longrightarrow>
            get_batch broadcast_data config_attention_mask to_float data_iterator use_local =
              Inr ((text_enc, text_dec, tensor_float to_float loss_mask, labels,
                    enc_self, dec_self, cross), data_iterator'))
       \<and> (\<forall>err.
            config_attention_mask text_enc text_dec (tensor_lt_half enc_raw)
                (tensor_lt_half dec_raw) use_local = Inl err \<longrightarrow>
            get_batch broadcast_data config_attention_mask to_float data_iterator use_local =
              Inl err)"
proof -
  have "get_batch broadcast_data config_attention_mask to_float data_iterator use_local =
     and_then
       (config_attention_mask text_enc text_dec (tensor_lt_half enc_raw)
          (tensor_lt_half dec_raw) use_local)
       (\<lambda>(enc_self, dec_self, cross).
          Inr ((text_enc, text_dec, tensor_float to_float loss_mask, labels,
                enc_self, dec_self, cross), data_iterator'))"
    using assms by (rule get_batch_decoded)
  then show ?thesis by simp
qed

theorem get_batch_seven_tuple_witness:
  "next_data (Some [example_record]) = Inr (Some example_record, Some []) \<and>
   example_broadcast batch_keys (Some example_record) TorchInt64 = Inr example_record \<and>
   example_mask_builder [[101, 7, 0]] [[1, 5]] (tensor_lt_half [[0, 0, 1]])
       (tensor_lt_half [[0, 1]]) True =
     Inr (''enc self-mask'', ''dec self-mask'', ''cross-mask'') \<and>
   get_batch example_broadcast example_mask_builder int64_to_real (Some [example_record]) True =
     Inr (([[101, 7, 0]], [[1, 5]], [[1, 0]], [[5, 2]],
           ''enc self-mask'', ''dec self-mask'', ''cross-mask''), Some []) \<and>
   get_batch example_broadcast example_mask_builder int64_to_real (Some [example_record]) False =
     Inl (CollaboratorError ''backend not available'')"
proof -
  have t: "example_mask_builder [[101, 7, 0]] [[1, 5]] (tensor_lt_half [[0, 0, 1]])
       (tensor_lt_half [[0, 1]]) True =
     Inr (''enc self-mask'', ''dec self-mask'', ''cross-mask'')"
    and f: "example_mask_builder [[101, 7, 0]] [[1, 5]] (tensor_lt_half [[0, 0, 1]])
       (tensor_lt_half [[0, 1]]) False = Inl (CollaboratorError ''backend not available'')"
    by (simp_all add: example_mask_builder_def)
  note inst = get_batch_seven_tuple [where broadcast_data = example_broadcast
      and data_b = example_record and config_attention_mask = example_mask_builder
      and to_float = int64_to_real,
      OF example_next example_broadcast_Some example_record_fields]
  from inst [of True] t have "get_batch example_broadcast example_mask_builder int64_to_real
      (Some [example_record]) True =
     Inr (([[101, 7, 0]], [[1, 5]], tensor_float int64_to_real [[1, 0]], [[5, 2]],
           ''enc self-mask'', ''dec self-mask'', ''cross-mask''), Some [])"
    by blast
  moreover from inst [of False] f have
    "get_batch example_broadcast example_mask_builder int64_to_real (Some [example_record]) False =
     Inl (CollaboratorError ''backend not available'')"
    by blast
  ultimately show ?thesis
    using t by (simp add: example_next example_broadcast_Some tensor_float_examples)
qed

text \<open>
  C7, as amended. \<^verbatim>\<open>get_batch\<close> compares no batch dimensions and raises no shape
  error of its own. It returns exactly when the iterator yields a record (or is
  \<open>None\<close>), the broadcast returns a record holding the six fields and the mask builder
  returns three masks, and the result is then the seven-tuple built from these,
  whatever the batch dimensions of the six fields are. It raises exactly when one of
  these steps raises, with that step's exception: \<^verbatim>\<open>StopIteration\<close> of the exhausted
  iterator, the exception of the broadcast, the \<^verbatim>\<open>KeyError\<close> of the first of the six
  keys that the broadcast record lacks, or the exception of the mask builder. So a
  shape error comes out of \<^verbatim>\<open>get_batch\<close> only when the broadcast or the mask builder
  raised it.
\<close>

theorem get_batch_outcome_is_collaborators_outcome:
  "(get_batch broadcast_data config_attention_mask to_float data_iterator use_local = Inr result
    \<longleftrightarrow>
    (\<exists>data data_iterator' data_b text_enc text_dec labels loss_mask enc_raw dec_raw
        enc_self dec_self cross.
       next_data data_iterator = Inr (data, data_iterator') \<and>
       broadcast_data batch_keys data TorchInt64 = Inr data_b \<and>
       data_b ''text_enc'' = Some text_enc \<and>
       data_b ''text_dec'' = Some text_dec \<and>
       data_b ''labels'' = Some labels \<and>
       data_b ''loss_mask'' = Some loss_mask \<and>
       data_b ''enc_mask'' = Some enc_raw \<and>
       data_b ''dec_mask'' = Some dec_raw \<and>
       config_attention_mask text_enc text_dec (tensor_lt_half enc_raw)
           (tensor_lt_half dec_raw) use_local = Inr (enc_self, dec_self, cross) \<and>
       result = ((text_enc, text_dec, tensor_float to_float loss_mask, labels,
                  enc_self, dec_self, cross), data_iterator')))
   \<and>
   (get_batch broadcast_data config_attention_mask to_float data_iterator use_local = Inl err
    \<longleftrightarrow>
    (next_data data_iterator = Inl err \<or>
      (\<exists>data data_iterator'.
         next_data data_iterator = Inr (data, data_iterator') \<and>
         (broadcast_data batch_keys data TorchInt64 = Inl err \<or>
          (\<exists>data_b.
             broadcast_data batch_keys data TorchInt64 = Inr data_b \<and>
             ((\<exists>k. find (\<lambda>k. data_b k = None) batch_keys = Some k \<and> err = KeyError k) \<or>
              (\<exists>text_enc text_dec labels loss_mask enc_raw dec_raw.
                 data_b ''text_enc'' = Some text_enc \<and>
                 data_b ''text_dec'' = Some text_dec \<and>
                 data_b ''labels'' = Some labels \<and>
                 data_b ''loss_mask'' = Some loss_mask \<and>
                 data_b ''enc_mask'' = Some enc_raw \<and>
                 data_b ''dec_mask'' = Some dec_raw \<and>
                 config_attention_mask text_enc text_dec (tensor_lt_half enc_raw)
                     (tensor_lt_half dec_raw) use_local = Inl err)))))))
   \<and>
   (next_data data_iterator = Inl err \<longleftrightarrow> data_iterator = Some [] \<and> err = StopIteration)
   \<and>
   (get_batch broadcast_data config_attention_mask to_float data_iterator use_local =
      Inl ShapeError \<longrightarrow>
    (\<exists>data. broadcast_data batch_keys data TorchInt64 = Inl ShapeError) \<or>
    (\<exists>text_enc text_dec enc_valid dec_valid.
       config_attention_mask text_enc text_dec enc_valid dec_valid use_local = Inl ShapeError))"
proof (intro conjI impI)
  show "get_batch broadcast_data config_attention_mask to_float data_iterator use_local =
          Inr result
    \<longleftrightarrow>
    (\<exists>data data_iterator' data_b text_enc text_dec labels loss_mask enc_raw dec_raw
        enc_self dec_self cross.
       next_data data_iterator = Inr (data, data_iterator') \<and>
       broadcast_data batch_keys data TorchInt64 = Inr data_b \<and>
       data_b ''text_enc'' = Some text_enc \<and>
       data_b ''text_dec'' = Some text_dec \<and>
       data_b ''labels'' = Some labels \<and>
       data_b ''loss_mask'' = Some loss_mask \<and>
       data_b ''enc_mask'' = Some enc_raw \<and>
       data_b ''dec_mask'' = Some dec_raw \<and>
       config_attention_mask text_enc text_dec (tensor_lt_half enc_raw)
           (tensor_lt_half dec_raw) use_local = Inr (enc_self, dec_self, cross) \<and>
       result = ((text_enc, text_dec, tensor_float to_float loss_mask, labels,
                  enc_self, dec_self, cross), data_iterator'))"
    by (rule get_batch_returns_iff)
next
  show "get_batch broadcast_data config_attention_mask to_float data_iterator use_local =
          Inl err
    \<longleftrightarrow>
    (next_data data_iterator = Inl err \<or>
      (\<exists>data data_iterator'.
         next_data data_iterator = Inr (data, data_iterator') \<and>
         (broadcast_data batch_keys data TorchInt64 = Inl err \<or>
          (\<exists>data_b.
             broadcast_data batch_keys data TorchInt64 = Inr data_b \<and>
             ((\<exists>k. find (\<lambda>k. data_b k = None) batch_keys = Some k \<and> err = KeyError k) \<or>
              (\<exists>text_enc text_dec labels loss_mask enc_raw dec_raw.
                 data_b ''text_enc'' = Some text_enc \<and>
                 data_b ''text_dec'' = Some text_dec \<and>
                 data_b ''labels'' = Some labels \<and>
                 data_b ''loss_mask'' = Some loss_mask \<and>
                 data_b ''enc_mask'' = Some enc_raw \<and>
                 data_b ''dec_mask'' = Some dec_raw \<and>
                 config_attention_mask text_enc text_dec (tensor_lt_half enc_raw)
                     (tensor_lt_half dec_raw) use_local = Inl err))))))"
    by (rule get_batch_fails_iff)
next
  show "next_data data_iterator = Inl err \<longleftrightarrow> data_iterator = Some [] \<and> err = StopIteration"
    by (rule next_data_fails_iff)
next
  assume "get_batch broadcast_data config_attention_mask to_float data_iterator use_local =
            Inl ShapeError"
  then show "(\<exists>data. broadcast_data batch_keys data TorchInt64 = Inl ShapeError) \<or>
    (\<exists>text_enc text_dec enc_valid dec_valid.
       config_attention_mask text_enc text_dec enc_valid dec_valid use_local = Inl ShapeError)"
    unfolding get_batch_fails_iff next_data_fails_iff by blast
qed

theorem get_batch_outcome_is_collaborators_outcome_witness:
  "length [[101, 7, 0], [101, 9, 0 :: int64]] \<noteq> length [[1, 5 :: int64]] \<and>
   get_batch example_broadcast example_mask_builder int64_to_real (Some [mismatched_record]) True =
     Inr (([[101, 7, 0], [101, 9, 0]], [[1, 5]], [[1, 0]], [[5, 2]],
           ''enc self-mask'', ''dec self-mask'', ''cross-mask''), Some []) \<and>
   get_batch example_broadcast example_mask_builder int64_to_real (Some []) True =
     Inl StopIteration \<and>
   get_batch example_broadcast example_mask_builder int64_to_real None True =
     Inl (CollaboratorError ''no data on the source rank'') \<and>
   get_batch example_broadcast example_mask_builder int64_to_real (Some [Map.empty]) True =
     Inl (KeyError ''text_enc'') \<and>
   get_batch example_broadcast example_mask_builder int64_to_real (Some [mismatched_record]) False =
     Inl (CollaboratorError ''backend not available'')"
proof -
  note outcome = get_batch_outcome_is_collaborators_outcome [where
      broadcast_data = example_broadcast and config_attention_mask = example_mask_builder
      and to_float = int64_to_real]
  have m: "example_mask_builder [[101, 7, 0], [101, 9, 0]] [[1, 5]] (tensor_lt_half [[0, 0, 1]])
       (tensor_lt_half [[0, 1]]) True =
     Inr (''enc self-mask'', ''dec self-mask'', ''cross-mask'')"
    and mf: "example_mask_builder [[101, 7, 0], [101, 9, 0]] [[1, 5]] (tensor_lt_half [[0, 0, 1]])
       (tensor_lt_half [[0, 1]]) False = Inl (CollaboratorError ''backend not available'')"
    by (simp_all add: example_mask_builder_def)
  have "get_batch example_broadcast example_mask_builder int64_to_real
      (Some [mismatched_record]) True =
     Inr (([[101, 7, 0], [101, 9, 0]], [[1, 5]], tensor_float int64_to_real [[1, 0]], [[5, 2]],
           ''enc self-mask'', ''dec self-mask'', ''cross-mask''), Some [])"
    using outcome [THEN conjunct1, THEN iffD2] example_next [of mismatched_record]
      example_broadcast_Some [of batch_keys mismatched_record TorchInt64]
      mismatched_record_fields m
    by blast
  then have returns: "get_batch example_broadcast example_mask_builder int64_to_real
      (Some [mismatched_record]) True =
     Inr (([[101, 7, 0], [101, 9, 0]], [[1, 5]], [[1, 0]], [[5, 2]],
           ''enc self-mask'', ''dec self-mask'', ''cross-mask''), Some [])"
    by (simp add: tensor_float_examples)
  have stop: "get_batch example_broadcast example_mask_builder int64_to_real (Some []) True =
     Inl StopIteration"
  proof -
    have "next_data (Some ([] :: (string \<rightharpoonup> int64 tensor) list)) = Inl StopIteration"
      by (simp add: next_data_def)
    then show ?thesis
      using outcome [THEN conjunct2, THEN conjunct1, THEN iffD2] by blast
  qed
  have nodata: "get_batch example_broadcast example_mask_builder int64_to_real None True =
     Inl (CollaboratorError ''no data on the source rank'')"
  proof -
    have "next_data (None :: (string \<rightharpoonup> int64 tensor) list option) = Inr (None, None)"
      by (simp add: next_data_def)
    moreover have "example_broadcast batch_keys None TorchInt64 =
        Inl (CollaboratorError ''no data on the source rank'')"
      by (simp add: example_broadcast_def)
    ultimately show ?thesis
      using outcome [THEN conjunct2, THEN conjunct1, THEN iffD2] by blast
  qed
  have nokey: "get_batch example_broadcast example_mask_builder int64_to_real
      (Some [Map.empty]) True = Inl (KeyError ''text_enc'')"
  proof -
    have "find (\<lambda>k. (Map.empty :: string \<rightharpoonup> int64 tensor) k = None) batch_keys =
        Some ''text_enc''"
      by (simp add: batch_keys_def)
    then show ?thesis
      using outcome [THEN conjunct2, THEN conjunct1, THEN iffD2]
        example_next [of "Map.empty :: string \<rightharpoonup> int64 tensor"]
        example_broadcast_Some [of batch_keys "Map.empty :: string \<rightharpoonup> int64 tensor" TorchInt64]
      by blast
  qed
  have builder: "get_batch example_broadcast example_mask_builder int64_to_real
      (Some [mismatched_record]) False = Inl (CollaboratorError ''backend not available'')"
    using outcome [THEN conjunct2, THEN conjunct1, THEN iffD2]
      example_next [of mismatched_record]
      example_broadcast_Some [of batch_keys mismatched_record TorchInt64]
      mismatched_record_fields mf
    by blast
  from returns stop nodata nokey builder show ?thesis by simp
qed

text \<open>
  The claim without the amendment fails: in the record below the encoder tokens have
  two rows and every other field has one, the two padding indicators agree, and
  \<^verbatim>\<open>get_batch\<close> with the mask builder of the specification returns its seven-tuple.
\<close>

theorem get_batch_mismatch_counterexample:
  "mismatched_record ''text_enc'' = Some [[101, 7, 0], [101, 9, 0]] \<and>
   mismatched_record ''text_dec'' = Some [[1, 5]] \<and>
   length [[101, 7, 0], [101, 9, 0 :: int64]] \<noteq> length [[1, 5 :: int64]] \<and>
   get_batch example_broadcast config_attention_mask_spec int64_to_real
       (Some [mismatched_record]) True =
     Inr (([[101, 7, 0], [101, 9, 0]], [[1, 5]], [[1, 0]], [[5, 2]],
           LocalMask [[[True, True, False], [True, True, False], [False, False, False]]],
           LocalMask [[[True, False], [False, False]]],
           LocalMask [[[True, True, False], [False, False, False]]]),
          Some [])"
  by (simp add: get_batch_decoded [where broadcast_data = example_broadcast
        and data_b = mismatched_record, OF example_next example_broadcast_Some
        mismatched_record_fields]
      mismatched_record_fields tensor_lt_half_examples tensor_float_examples
      spec_builder_example)

text \<open>
  C9. With the mask builder of the specification, for all padding indicators whose
  batch dimensions agree, the cross-mask that \<^verbatim>\<open>get_batch\<close> returns satisfies, at every
  batch entry \<open>b\<close>, decoder query position \<open>i\<close> and encoder key position \<open>j\<close>:
  the position is attendable exactly when decoder position \<open>i\<close> is valid and encoder
  position \<open>j\<close> is valid, for either backend.
\<close>

theorem get_batch_cross_mask:
  assumes "next_data data_iterator = Inr (data, data_iterator')"
    and "broadcast_data batch_keys data TorchInt64 = Inr data_b"
    and "data_b ''text_enc'' = Some text_enc"
    and "data_b ''text_dec'' = Some text_dec"
    and "data_b ''labels'' = Some labels"
    and "data_b ''loss_mask'' = Some loss_mask"
    and "data_b ''enc_mask'' = Some enc_raw"
    and "data_b ''dec_mask'' = Some dec_raw"
    and "length enc_raw = length dec_raw"
  shows "\<exists>enc_self dec_self cross.
           get_batch broadcast_data config_attention_mask_spec to_float data_iterator use_local =
             Inr ((text_enc, text_dec, tensor_float to_float loss_mask, labels,
                   enc_self, dec_self, cross), data_iterator') \<and>
           (\<forall>b < length dec_raw. \<forall>i < length (dec_raw ! b). \<forall>j < length (enc_raw ! b).
              mask_at cross b i j \<longleftrightarrow>
                tensor_lt_half dec_raw ! b ! i \<and> tensor_lt_half enc_raw ! b ! j)"
proof -
  have len: "length (tensor_lt_half enc_raw) = length (tensor_lt_half dec_raw)"
    using assms(9) by (simp add: tensor_lt_half_shape)
  from config_attention_mask_spec_returns [OF len] obtain enc_self dec_self cross where
    m: "config_attention_mask_spec text_enc text_dec (tensor_lt_half enc_raw)
          (tensor_lt_half dec_raw) use_local = Inr (enc_self, dec_self, cross)"
    by blast
  have "get_batch broadcast_data config_attention_mask_spec to_float data_iterator use_local =
     and_then
       (config_attention_mask_spec text_enc text_dec (tensor_lt_half enc_raw)
          (tensor_lt_half dec_raw) use_local)
       (\<lambda>(enc_self, dec_self, cross).
          Inr ((text_enc, text_dec, tensor_float to_float loss_mask, labels,
                enc_self, dec_self, cross), data_iterator'))"
    using assms(1-8) by (rule get_batch_decoded)
  with m have g: "get_batch broadcast_data config_attention_mask_spec to_float data_iterator
      use_local =
     Inr ((text_enc, text_dec, tensor_float to_float loss_mask, labels,
           enc_self, dec_self, cross), data_iterator')"
    by simp
  have "\<forall>b < length dec_raw. \<forall>i < length (dec_raw ! b). \<forall>j < length (enc_raw ! b).
          mask_at cross b i j \<longleftrightarrow>
            tensor_lt_half dec_raw ! b ! i \<and> tensor_lt_half enc_raw ! b ! j"
  proof (intro allI impI)
    fix b i j
    assume b: "b < length dec_raw" and i: "i < length (dec_raw ! b)"
      and j: "j < length (enc_raw ! b)"
    from b assms(9) have b': "b < length enc_raw" by simp
    show "mask_at cross b i j \<longleftrightarrow>
            tensor_lt_half dec_raw ! b ! i \<and> tensor_lt_half enc_raw ! b ! j"
      using b b' i j
      by (intro config_attention_mask_spec_cross [OF m]) (simp_all add: tensor_lt_half_shape)
  qed
  with g show ?thesis by blast
qed

theorem get_batch_cross_mask_witness:
  "next_data (Some [example_record]) = Inr (Some example_record, Some []) \<and>
   example_broadcast batch_keys (Some example_record) TorchInt64 = Inr example_record \<and>
   example_record ''enc_mask'' = Some [[0, 0, 1]] \<and>
   example_record ''dec_mask'' = Some [[0, 1]] \<and>
   length [[0, 0, 1 :: int64]] = length [[0, 1 :: int64]] \<and>
   tensor_lt_half [[0, 0, 1]] = [[True, True, False]] \<and>
   tensor_lt_half [[0, 1]] = [[True, False]] \<and>
   (\<exists>enc_self dec_self cross.
      get_batch example_broadcast config_attention_mask_spec int64_to_real
          (Some [example_record]) False =
        Inr (([[101, 7, 0]], [[1, 5]], [[1, 0]], [[5, 2]], enc_self, dec_self, cross), Some []) \<and>
      mask_at cross 0 0 0 \<and> mask_at cross 0 0 1 \<and> \<not> mask_at cross 0 0 2 \<and>
      \<not> mask_at cross 0 1 0 \<and> \<not> mask_at cross 0 1 1 \<and> \<not> mask_at cross 0 1 2)"
proof -
  have len: "length [[0, 0, 1 :: int64]] = length [[0, 1 :: int64]]" by simp
  from get_batch_cross_mask [where broadcast_data = example_broadcast
      and data_b = example_record and to_float = int64_to_real and use_local = False,
      OF example_next example_broadcast_Some example_record_fields len]
  obtain enc_self dec_self cross where
    g: "get_batch example_broadcast config_attention_mask_spec int64_to_real
          (Some [example_record]) False =
        Inr (([[101, 7, 0]], [[1, 5]], tensor_float int64_to_real [[1, 0]], [[5, 2]],
              enc_self, dec_self, cross), Some [])"
    and c: "\<forall>b < length [[0, 1 :: int64]]. \<forall>i < length ([[0, 1 :: int64]] ! b).
              \<forall>j < length ([[0, 0, 1 :: int64]] ! b).
              mask_at cross b i j \<longleftrightarrow>
                tensor_lt_half [[0, 1]] ! b ! i \<and> tensor_lt_half [[0, 0, 1]] ! b ! j"
    by blast
  from c have "mask_at cross 0 0 0" "mask_at cross 0 0 1" "\<not> mask_at cross 0 0 2"
    "\<not> mask_at cross 0 1 0" "\<not> mask_at cross 0 1 1" "\<not> mask_at cross 0 1 2"
    by (simp_all add: tensor_lt_half_examples)
  with g show ?thesis
    by (auto simp: example_next example_broadcast_Some example_record_fields
        tensor_lt_half_examples tensor_float_examples)
qed

section \<open>Forward step: the claims\<close>

text \<open>
  C6. For every data iterator (possibly \<open>None\<close>) and model, when the batch decoder
  returns, \<^verbatim>\<open>forward_step\<close> calls the model with the arguments in the order encoder
  tokens, decoder tokens, encoder mask, decoder mask, cross-mask, labels, and returns
  the pair of the model's output and the loss closure, which is \<^verbatim>\<open>loss_func\<close> with the
  loss weights of the batch bound as its first argument.
\<close>

theorem forward_step_invokes_model:
  assumes "get_batch broadcast_data config_attention_mask to_float data_iterator
             (transformer_impl args = ''local'') =
           Inr ((tokens_enc, tokens_dec, loss_mask, lm_labels, enc_mask, dec_mask, enc_dec_mask),
                data_iterator')"
    and "model tokens_enc tokens_dec enc_mask dec_mask enc_dec_mask lm_labels = Inr output_tensor"
  shows "forward_step args broadcast_data config_attention_mask to_float loss_func
           data_iterator model =
         Inr ((output_tensor, loss_func loss_mask), data_iterator',
              [TimerStart ''batch generator'' 2, TimerStop ''batch generator''])"
  using assms by (simp add: forward_step_def)

theorem forward_step_invokes_model_witness:
  "get_batch example_broadcast example_mask_builder int64_to_real (Some [example_record])
       (transformer_impl legacy_pipeline_args = ''local'') =
     Inr (([[101, 7, 0]], [[1, 5]], [[1, 0]], [[5, 2]],
           ''enc self-mask'', ''dec self-mask'', ''cross-mask''), Some []) \<and>
   echo_model [[101, 7, 0]] [[1, 5]] ''enc self-mask'' ''dec self-mask'' ''cross-mask'' [[5, 2]] =
     Inr ([[101, 7, 0]], [[1, 5]], ''enc self-mask'', ''dec self-mask'', ''cross-mask'', [[5, 2]]) \<and>
   forward_step legacy_pipeline_args example_broadcast example_mask_builder int64_to_real Pair
       (Some [example_record]) echo_model =
     Inr ((([[101, 7, 0]], [[1, 5]], ''enc self-mask'', ''dec self-mask'', ''cross-mask'', [[5, 2]]),
           Pair [[1, 0]]),
          Some [], [TimerStart ''batch generator'' 2, TimerStop ''batch generator''])"
proof -
  have m: "echo_model [[101, 7, 0]] [[1, 5]] ''enc self-mask'' ''dec self-mask'' ''cross-mask''
      [[5, 2]] =
     Inr ([[101, 7, 0]], [[1, 5]], ''enc self-mask'', ''dec self-mask'', ''cross-mask'', [[5, 2]])"
    by (simp add: echo_model_def)
  from forward_step_invokes_model [where model = echo_model and loss_func = Pair,
      OF example_get_batch_local m] example_get_batch_local m
  show ?thesis by simp
qed

text \<open>
  C8. With the loss function of the specification, for every microbatch whose loss
  weights are all zero, the loss closure that \<^verbatim>\<open>forward_step\<close> returns fails with
  \<open>DegenerateBatchError\<close> on the output of the model and on every other output; it
  returns no number.
\<close>

theorem loss_closure_zero_weights_degenerate:
  assumes "next_data data_iterator = Inr (data, data_iterator')"
    and "broadcast_data batch_keys data TorchInt64 = Inr data_b"
    and "data_b ''loss_mask'' = Some loss_weights"
    and "\<forall>row \<in> set loss_weights. \<forall>w \<in> set row. w = 0"
    and "forward_step args broadcast_data config_attention_mask int64_to_real loss_func_spec
           data_iterator model =
         Inr ((output_tensor, loss_closure), data_iterator'', timer_log)"
  shows "loss_closure output_tensor = Inl DegenerateBatchError \<and>
         (\<forall>output. loss_closure output = Inl DegenerateBatchError)"
proof -
  from forward_step_returnsD [OF assms(5)] obtain tokens_enc tokens_dec loss_mask lm_labels
      enc_mask dec_mask enc_dec_mask where
    g: "get_batch broadcast_data config_attention_mask int64_to_real data_iterator
               (transformer_impl args = ''local'') =
             Inr ((tokens_enc, tokens_dec, loss_mask, lm_labels, enc_mask, dec_mask, enc_dec_mask),
                  data_iterator'')"
    and c: "loss_closure = loss_func_spec loss_mask"
    by blast
  from get_batch_returnsD [OF g] assms(1-3)
  have "loss_mask = tensor_float int64_to_real loss_weights"
    by auto
  with c assms(4) show ?thesis
    by (simp add: loss_func_spec_zero_weights)
qed

theorem loss_closure_zero_weights_degenerate_witness:
  "next_data (Some [zero_weight_record]) = Inr (Some zero_weight_record, Some []) \<and>
   example_broadcast batch_keys (Some zero_weight_record) TorchInt64 = Inr zero_weight_record \<and>
   zero_weight_record ''loss_mask'' = Some [[0, 0]] \<and>
   forward_step legacy_pipeline_args example_broadcast config_attention_mask_spec int64_to_real
       loss_func_spec (Some [zero_weight_record]) constant_loss_model =
     Inr (([[1 / 2, 1 / 4]], loss_func_spec [[0, 0]]), Some [],
          [TimerStart ''batch generator'' 2, TimerStop ''batch generator'']) \<and>
   loss_func_spec [[0, 0]] [[1 / 2, 1 / 4]] = Inl DegenerateBatchError"
proof -
  have g: "get_batch example_broadcast config_attention_mask_spec int64_to_real
       (Some [zero_weight_record]) (transformer_impl legacy_pipeline_args = ''local'') =
     Inr (([[101, 7, 0]], [[1, 5]], [[0, 0]], [[5, 2]],
           LocalMask [[[True, True, False], [True, True, False], [False, False, False]]],
           LocalMask [[[True, False], [False, False]]],
           LocalMask [[[True, True, False], [False, False, False]]]),
          Some [])"
    by (simp add: get_batch_decoded [where broadcast_data = example_broadcast
          and data_b = zero_weight_record, OF example_next example_broadcast_Some
          zero_weight_record_fields]
        legacy_pipeline_args_def tensor_lt_half_examples tensor_float_examples
        spec_builder_example)
  have f: "forward_step legacy_pipeline_args example_broadcast config_attention_mask_spec
       int64_to_real loss_func_spec (Some [zero_weight_record]) constant_loss_model =
     Inr (([[1 / 2, 1 / 4]], loss_func_spec [[0, 0]]), Some [],
          [TimerStart ''batch generator'' 2, TimerStop ''batch generator''])"
    by (simp add: forward_step_def g constant_loss_model_def)
  have z: "\<forall>row \<in> set [[0, 0 :: int64]]. \<forall>w \<in> set row. w = 0"
    by simp
  from loss_closure_zero_weights_degenerate [where broadcast_data = example_broadcast
      and data_b = zero_weight_record,
      OF example_next example_broadcast_Some zero_weight_record_fields(4) z f]
  have "loss_func_spec [[0, 0]] [[1 / 2, 1 / 4]] = Inl DegenerateBatchError"
    by blast
  with f show ?thesis
    by (simp add: example_next example_broadcast_Some zero_weight_record_fields)
qed

end
